theory Spec2Isabelle
  imports Complex_Main "HOL-Library.Char_ord" "HOL-Library.List_Lexorder"
begin

section \<open>The supervised-embedding intent classifier\<close>

text \<open>
  A shallow embedding of \<^verbatim>\<open>rasa_nlu/classifiers/embedding_intent_classifier.py\<close>.
  Python integers are \<^typ>\<open>int\<close>; tensors of floats are lists of \<^typ>\<open>real\<close>
  (the arithmetic of the model is exact, rounding of \<^verbatim>\<open>float32\<close> is not modelled);
  every \<^verbatim>\<open>raise\<close> of the source is a value of \<open>py_error\<close>.
\<close>

subsection \<open>Errors and basic Python operations\<close>

datatype py_error =
  ValueError | IndexError | KeyError | TypeError | AttributeError
  | ZeroDivisionError | ImportError | OSError | ShapeError

text \<open>
  \<open>ShapeError\<close> stands for TensorFlow's error on operands whose shapes do not fit (a
  \<^verbatim>\<open>ValueError\<close> when the graph is built, an \<^verbatim>\<open>InvalidArgumentError\<close> when it runs).
\<close>

text \<open>\<^verbatim>\<open>int(x)\<close> on a number truncates toward zero.\<close>

definition py_int :: "rat \<Rightarrow> int" where
  "py_int x = (if 0 \<le> x then \<lfloor>x\<rfloor> else \<lceil>x\<rceil>)"

text \<open>\<^verbatim>\<open>xs[i]\<close> for a list index \<open>i \<ge> 0\<close>; out of range raises.\<close>

definition py_index :: "'a list \<Rightarrow> nat \<Rightarrow> py_error + 'a" where
  "py_index xs i = (if i < length xs then Inr (xs ! i) else Inl IndexError)"

subsection \<open>The batch-size schedule\<close>

text \<open>
  The option \<^verbatim>\<open>batch_size\<close> is either a number or a list \<^verbatim>\<open>[start, end]\<close>
  (\<^verbatim>\<open>isinstance(self.batch_size, list)\<close> tells them apart).
\<close>

datatype batch_size_cfg = BatchInt int | BatchList "int list"

text \<open>
  \<^verbatim>\<open>_linearly_increasing_batch_size(self, epoch)\<close>, as a function of the two
  attributes it reads. The quotient \<^verbatim>\<open>epoch * (b1 - b0) / (epochs - 1)\<close> is Python's
  true division, here a rational; \<^verbatim>\<open>%\<close> is the floor modulus, as \<open>mod\<close> on
  \<^typ>\<open>int\<close>. Both list elements are read before the division.
\<close>

definition linearly_increasing_batch_size ::
  "batch_size_cfg \<Rightarrow> int \<Rightarrow> int \<Rightarrow> py_error + int" where
  "linearly_increasing_batch_size bs eps epoch =
     (case bs of
        BatchInt b \<Rightarrow> Inr b
      | BatchList l \<Rightarrow>
          if eps > 1 then
            (case py_index l 0 of
               Inl e \<Rightarrow> Inl e
             | Inr b0 \<Rightarrow>
                (case py_index l 1 of
                   Inl e \<Rightarrow> Inl e
                 | Inr b1 \<Rightarrow>
                     let batch = py_int (of_int b0 +
                           of_int (epoch * (b1 - b0)) / of_int (eps - 1))
                     in Inr (if batch mod 2 = 0 then batch else batch + 1)))
          else
            (case py_index l 0 of
               Inl e \<Rightarrow> Inl e
             | Inr b0 \<Rightarrow> Inr b0))"

subsection \<open>The component and its configuration\<close>

text \<open>
  The options of \<^verbatim>\<open>defaults\<close> that the modelled methods read (the component
  configuration always holds every key: it is \<^verbatim>\<open>defaults\<close> updated with the
  user's values). Not modelled, because nothing below reads them:
  \<^verbatim>\<open>pos_encoding, pos_max_timescale, max_seq_length, num_heads, layer_norm,
  random_seed, C2, droprate\<close>.
\<close>

record config =
  hidden_layers_sizes_a :: "int list"
  hidden_layers_sizes_b :: "int list"
  share_embedding :: bool
  bidirectional :: bool
  fused_lstm :: bool
  gpu_lstm :: bool
  transformer :: bool
  batch_size :: batch_size_cfg
  epochs :: int
  embed_dim :: nat
  mu_pos :: real
  mu_neg :: real
  similarity_type :: string
  num_neg :: int
  use_neg_from_batch :: bool
  use_iou :: bool
  use_max_sim_neg :: bool
  C_emb :: real
  intent_tokenization_flag :: bool
  intent_split_symbol :: string
  evaluate_every_num_epochs :: int
  evaluate_on_num_examples :: int

text \<open>
  Features of an example: a dense vector (a 1-D \<^verbatim>\<open>ndarray\<close>), a
  \<^verbatim>\<open>scipy.sparse\<close> matrix with one row per token, or \<^verbatim>\<open>None\<close> when the
  featurizer set nothing (\<^verbatim>\<open>example.get(...)\<close> then returns \<^verbatim>\<open>None\<close>).
\<close>

type_synonym vec = "real list"
type_synonym matrix = "real list list"

datatype feats = NoFeats | Dense vec | Sparse nat matrix

text \<open>
  \<open>Sparse d rows\<close> is a sparse matrix of shape \<open>(length rows, d)\<close>. The attribute
  \<^verbatim>\<open>shape\<close> exists on arrays and sparse matrices, not on \<^verbatim>\<open>None\<close>.
\<close>

fun shape_first :: "feats \<Rightarrow> py_error + nat" where
  "shape_first NoFeats = Inl AttributeError"
| "shape_first (Dense v) = Inr (length v)"
| "shape_first (Sparse d rows) = Inr (length rows)"

fun shape_last :: "feats \<Rightarrow> py_error + nat" where
  "shape_last NoFeats = Inl AttributeError"
| "shape_last (Dense v) = Inr (length v)"
| "shape_last (Sparse d rows) = Inr d"

text \<open>
  Objects of TensorFlow (sessions, graphs, tensors, operations) are handles: what they
  compute is the business of the runtime, a parameter of the methods that call it.
\<close>

type_synonym handle = nat

text \<open>
  The instance: the attributes loaded from the configuration, then the attributes that
  \<^verbatim>\<open>__init__\<close> declares and \<^verbatim>\<open>train\<close> or \<^verbatim>\<open>load\<close> fill. \<^verbatim>\<open>None\<close> is
  \<open>None\<close>. The intent table \<open>encoded_all_intents\<close> has one entry per intent id;
  \<open>all_intents_embed_values\<close> has shape \<open>[1, n, embed_dim]\<close>.
\<close>

record classifier = config +
  inv_intent_dict :: "(nat \<times> string) list option"
  encoded_all_intents :: "feats list option"
  all_intents_embed_values :: "matrix list option"
  iou :: "matrix option"
  session :: "handle option"
  graph :: "handle option"
  iterator :: "handle option"
  a_in :: "handle option"
  b_in :: "handle option"
  sim_op :: "handle option"
  all_intents_embed_in :: "handle option"
  sim_all :: "handle option"
  sequence_flag :: "bool option"
  word_embed :: "handle option"
  intent_embed :: "handle option"

subsection \<open>Construction\<close>

text \<open>
  \<^verbatim>\<open>_load_nn_architecture_params\<close>: the three checks, in the order of the source. The
  generator in \<^verbatim>\<open>any(sizes[0] != size for size in sizes)\<close> reads \<^verbatim>\<open>sizes[0]\<close> only
  for an element of \<open>sizes\<close>, so an empty list raises nothing.
\<close>

definition load_nn_architecture_params :: "config \<Rightarrow> py_error + config" where
  "load_nn_architecture_params cfg =
     (if share_embedding cfg \<and> hidden_layers_sizes_a cfg \<noteq> hidden_layers_sizes_b cfg
      then Inl ValueError
      else if (gpu_lstm cfg \<and> fused_lstm cfg) \<or> (transformer cfg \<and> fused_lstm cfg)
              \<or> (gpu_lstm cfg \<and> transformer cfg)
      then Inl ValueError
      else if (gpu_lstm cfg \<or> transformer cfg)
              \<and> list_ex (\<lambda>size. hd (hidden_layers_sizes_a cfg) \<noteq> size) (hidden_layers_sizes_a cfg)
      then Inl ValueError
      else if (gpu_lstm cfg \<or> transformer cfg)
              \<and> list_ex (\<lambda>size. hd (hidden_layers_sizes_b cfg) \<noteq> size) (hidden_layers_sizes_b cfg)
      then Inl ValueError
      else Inr cfg)"

text \<open>
  \<^verbatim>\<open>_load_embedding_params\<close> and \<^verbatim>\<open>_load_regularization_params\<close> copy options into
  attributes and check nothing: the similarity type is stored as it is.
\<close>

definition load_embedding_params :: "config \<Rightarrow> py_error + config" where
  "load_embedding_params cfg = Inr cfg"

definition load_flag_if_tokenize_intents :: "config \<Rightarrow> config" where
  "load_flag_if_tokenize_intents cfg =
     (if intent_tokenization_flag cfg \<and> intent_split_symbol cfg = []
      then cfg\<lparr>intent_tokenization_flag := False\<rparr> else cfg)"

definition load_visual_params :: "config \<Rightarrow> config" where
  "load_visual_params cfg =
     (let c1 = (if evaluate_every_num_epochs cfg < 1
                then cfg\<lparr>evaluate_every_num_epochs := epochs cfg\<rparr> else cfg)
      in if gpu_lstm c1 then c1\<lparr>evaluate_on_num_examples := 0\<rparr> else c1)"

definition load_params :: "config \<Rightarrow> py_error + config" where
  "load_params cfg =
     (case load_nn_architecture_params cfg of
        Inl e \<Rightarrow> Inl e
      | Inr c1 \<Rightarrow>
         (case load_embedding_params c1 of
            Inl e \<Rightarrow> Inl e
          | Inr c2 \<Rightarrow> Inr (load_visual_params (load_flag_if_tokenize_intents c2))))"

text \<open>
  \<^verbatim>\<open>__init__(self, component_config)\<close> with every other argument at its default
  \<^verbatim>\<open>None\<close>, which is how the pipeline constructs the component before training.
  \<open>tf_importable\<close> says whether \<^verbatim>\<open>import tensorflow\<close> succeeded. \<open>fresh p\<close> is the
  instance with the loaded parameters \<open>p\<close> and nothing trained or restored.
\<close>

definition fresh :: "config \<Rightarrow> classifier" where
  "fresh p =
     config.extend p
       \<lparr>inv_intent_dict = None, encoded_all_intents = None,
        all_intents_embed_values = None, iou = None, session = None, graph = None,
        iterator = None, a_in = None, b_in = None, sim_op = None,
        all_intents_embed_in = None, sim_all = None, sequence_flag = None,
        word_embed = None, intent_embed = None\<rparr>"

definition init :: "bool \<Rightarrow> config \<Rightarrow> py_error + classifier" where
  "init tf_importable component_config =
     (if \<not> tf_importable then Inl ImportError
      else case load_params component_config of
        Inl e \<Rightarrow> Inl e
      | Inr p \<Rightarrow> Inr (fresh p))"

text \<open>The \<^verbatim>\<open>defaults\<close> of the class.\<close>

definition defaults :: config where
  "defaults =
     \<lparr>hidden_layers_sizes_a = [256, 128], hidden_layers_sizes_b = [],
      share_embedding = False, bidirectional = False, fused_lstm = False, gpu_lstm = False,
      transformer = False, batch_size = BatchList [64, 256], epochs = 300, embed_dim = 20,
      mu_pos = 8 / 10, mu_neg = - (4 / 10), similarity_type = ''cosine'', num_neg = 20,
      use_neg_from_batch = True, use_iou = False, use_max_sim_neg = True, C_emb = 8 / 10,
      intent_tokenization_flag = False, intent_split_symbol = ''_'',
      evaluate_every_num_epochs = 10, evaluate_on_num_examples = 1000\<rparr>"

subsection \<open>Training data\<close>

record example =
  intent :: string
  text_features :: feats
  intent_features :: feats

text \<open>
  \<^verbatim>\<open>_create_intent_dict\<close>: the distinct intents, sorted, numbered from 0. The dictionary
  is kept as the list of its items, in insertion order.
\<close>

definition create_intent_dict :: "example list \<Rightarrow> (string \<times> nat) list" where
  "create_intent_dict training_data =
     (let distinct_intents = remdups (map intent training_data)
      in zip (sort distinct_intents) [0..<length distinct_intents])"

text \<open>\<^verbatim>\<open>_find_example_for_intent\<close> returns \<^verbatim>\<open>None\<close> when no example matches.\<close>

definition find_example_for_intent :: "string \<Rightarrow> example list \<Rightarrow> example option" where
  "find_example_for_intent i examples = find (\<lambda>ex. intent ex = i) examples"

text \<open>\<^verbatim>\<open>xs.insert(i, x)\<close> puts \<open>x\<close> before position \<open>i\<close>, at the end when \<open>i\<close> is too large.\<close>

definition py_insert :: "'a list \<Rightarrow> nat \<Rightarrow> 'a \<Rightarrow> 'a list" where
  "py_insert xs i x = take i xs @ x # drop i xs"

text \<open>\<^verbatim>\<open>np.eye(n)\<close>, row by row.\<close>

definition eye :: "nat \<Rightarrow> matrix" where
  "eye n = map (\<lambda>i. map (\<lambda>j. if i = j then 1 else 0) [0..<n]) [0..<n]"

text \<open>
  \<^verbatim>\<open>_create_encoded_intents\<close>: with intent tokenization the features of the first
  example of each intent, inserted at the intent's id; otherwise the identity matrix.
  The result is indexed by intent id, so its \<^verbatim>\<open>shape[0]\<close> is its length.
\<close>

fun encode_items :: "example list \<Rightarrow> (string \<times> nat) list \<Rightarrow> feats list \<Rightarrow> py_error + feats list" where
  "encode_items examples [] acc = Inr acc"
| "encode_items examples ((key, idx) # items) acc =
     (case find_example_for_intent key examples of
        None \<Rightarrow> Inl AttributeError
      | Some ex \<Rightarrow> encode_items examples items (py_insert acc idx (intent_features ex)))"

definition create_encoded_intents ::
  "classifier \<Rightarrow> (string \<times> nat) list \<Rightarrow> example list \<Rightarrow> py_error + feats list" where
  "create_encoded_intents self intent_dict training_data =
     (if intent_tokenization_flag self
      then encode_items training_data intent_dict []
      else Inr (map Dense (eye (length intent_dict))))"

text \<open>
  \<^verbatim>\<open>np.stack\<close> of a list of features: the arrays must have one shape (sparse matrices
  and \<^verbatim>\<open>None\<close> become 0-dimensional object arrays, a dense vector keeps its length),
  and the list must not be empty.
\<close>

fun stack_shape :: "feats \<Rightarrow> nat option" where
  "stack_shape NoFeats = None"
| "stack_shape (Dense v) = Some (length v)"
| "stack_shape (Sparse d rows) = None"

definition np_stack :: "feats list \<Rightarrow> py_error + feats list" where
  "np_stack xs =
     (case xs of
        [] \<Rightarrow> Inl ValueError
      | x # rest \<Rightarrow>
          if list_all (\<lambda>y. stack_shape y = stack_shape x) rest then Inr xs
          else Inl ValueError)"

text \<open>\<^verbatim>\<open>intent_dict[key]\<close>.\<close>

definition dict_get :: "('k \<times> 'v) list \<Rightarrow> 'k \<Rightarrow> py_error + 'v" where
  "dict_get d k = (case map_of d k of None \<Rightarrow> Inl KeyError | Some v \<Rightarrow> Inr v)"

text \<open>Running a fallible function over a list, stopping at the first error.\<close>

fun map_err :: "('a \<Rightarrow> py_error + 'b) \<Rightarrow> 'a list \<Rightarrow> py_error + 'b list" where
  "map_err f [] = Inr []"
| "map_err f (x # xs) =
     (case f x of
        Inl e \<Rightarrow> Inl e
      | Inr y \<Rightarrow> (case map_err f xs of Inl e \<Rightarrow> Inl e | Inr ys \<Rightarrow> Inr (y # ys)))"

text \<open>
  \<^verbatim>\<open>_prepare_data_for_training\<close>: \<open>X\<close>, \<open>Y\<close> and the intent id of every example.
  It reads \<^verbatim>\<open>self.encoded_all_intents\<close>, which \<^verbatim>\<open>train\<close> has just set.
\<close>

definition prepare_data_for_training ::
  "classifier \<Rightarrow> feats list \<Rightarrow> example list \<Rightarrow> (string \<times> nat) list
     \<Rightarrow> py_error + (feats list \<times> feats list \<times> nat list)" where
  "prepare_data_for_training self enc training_data intent_dict =
     (case np_stack (map text_features training_data) of
        Inl e \<Rightarrow> Inl e
      | Inr X \<Rightarrow>
         (case map_err (\<lambda>ex. dict_get intent_dict (intent ex)) training_data of
            Inl e \<Rightarrow> Inl e
          | Inr intents_for_X \<Rightarrow>
             (case (if intent_tokenization_flag self
                    then np_stack (map intent_features training_data)
                    else (case map_err (py_index enc) intents_for_X of
                            Inl e \<Rightarrow> Inl e
                          | Inr rows \<Rightarrow> np_stack rows)) of
                Inl e \<Rightarrow> Inl e
              | Inr Y \<Rightarrow> Inr (X, Y, intents_for_X))))"

text \<open>
  \<^verbatim>\<open>len(X.shape) != 2 and any(x.shape[0] != 1 for x in X)\<close>. \<open>X\<close> has two
  dimensions when its rows are dense vectors; \<^verbatim>\<open>any\<close> stops at the first true element.
\<close>

fun any_not_single :: "feats list \<Rightarrow> py_error + bool" where
  "any_not_single [] = Inr False"
| "any_not_single (x # xs) =
     (case shape_first x of
        Inl e \<Rightarrow> Inl e
      | Inr n \<Rightarrow> if n \<noteq> 1 then Inr True else any_not_single xs)"

definition is_2d :: "feats list \<Rightarrow> bool" where
  "is_2d X = (case X of Dense v # rest \<Rightarrow> True | _ \<Rightarrow> False)"

definition compute_sequence :: "feats list \<Rightarrow> py_error + bool" where
  "compute_sequence X = (if is_2d X then Inr False else any_not_single X)"

text \<open>
  The first part of \<^verbatim>\<open>train\<close>, for data with at least two intents: the tables, the
  data, \<^verbatim>\<open>self.sequence\<close>, the check of shared embeddings, and the clamp of
  \<^verbatim>\<open>num_neg\<close>. An exception leaves the attributes assigned before it in place, so the
  error comes with the instance.
\<close>

definition train_prepare ::
  "classifier \<Rightarrow> example list \<Rightarrow> (string \<times> nat) list
     \<Rightarrow> (py_error \<times> classifier) + (classifier \<times> feats list \<times> feats list \<times> nat list)" where
  "train_prepare self training_data intent_dict =
     (let s1 = self\<lparr>inv_intent_dict := Some (map (\<lambda>(k, v). (v, k)) intent_dict)\<rparr>
      in case create_encoded_intents s1 intent_dict training_data of
           Inl e \<Rightarrow> Inl (e, s1)
         | Inr enc \<Rightarrow>
            (let s2 = s1\<lparr>encoded_all_intents := Some enc\<rparr>
             in case prepare_data_for_training s2 enc training_data intent_dict of
                  Inl e \<Rightarrow> Inl (e, s2)
                | Inr (X, Y, intents_for_X) \<Rightarrow>
                   (case compute_sequence X of
                      Inl e \<Rightarrow> Inl (e, s2)
                    | Inr sq \<Rightarrow>
                       (let s3 = s2\<lparr>sequence_flag := Some sq\<rparr>
                        in case (if share_embedding s3
                                 then (case shape_last (hd X) of
                                         Inl e \<Rightarrow> Inl e
                                       | Inr dx \<Rightarrow>
                                          (case shape_last (hd Y) of
                                             Inl e \<Rightarrow> Inl e
                                           | Inr dy \<Rightarrow>
                                               if dx \<noteq> dy then Inl ValueError else Inr ()))
                                 else Inr ()) of
                             Inl e \<Rightarrow> Inl (e, s3)
                           | Inr u \<Rightarrow>
                               Inr (s3\<lparr>num_neg := min (num_neg s3) (int (length enc) - 1)\<rparr>,
                                    X, Y, intents_for_X)))))"

subsection \<open>The TensorFlow runtime\<close>

text \<open>
  What TensorFlow and NumPy's random generator do is a parameter of the model: a record
  of the calls that \<^verbatim>\<open>train\<close>, \<^verbatim>\<open>process\<close> and \<^verbatim>\<open>persist\<close> make. Each call may
  raise. An epoch of the dataset iterator is the list of the losses of its batches: the
  dataset is finite, so \<^verbatim>\<open>OutOfRangeError\<close> ends the inner \<^verbatim>\<open>while True\<close> loop
  after finitely many batches.
\<close>

record tf_runtime =
  rt_graph :: handle
  rt_permutation :: "nat \<Rightarrow> nat list"
  rt_sparse_tensor :: "feats list \<Rightarrow> nat \<Rightarrow> nat \<Rightarrow> py_error + handle"
  rt_dataset :: "handle \<Rightarrow> handle \<Rightarrow> py_error + handle"
  rt_iterator :: "handle \<Rightarrow> py_error + (handle \<times> handle \<times> handle)"
  rt_rnn_embed :: "handle \<Rightarrow> int list \<Rightarrow> string \<Rightarrow> py_error + handle"
  rt_sim_ops :: "handle \<Rightarrow> handle \<Rightarrow> py_error + handle"
  rt_minimize :: "handle \<Rightarrow> py_error + (handle \<times> handle)"
  rt_make_initializer :: "handle \<Rightarrow> handle option \<Rightarrow> py_error + handle"
  rt_session :: handle
  rt_run_epoch :: "nat \<Rightarrow> int \<Rightarrow> py_error + real list"
  rt_train_acc :: "nat \<Rightarrow> py_error + real"
  rt_run_sim_all :: "handle \<Rightarrow> handle option \<Rightarrow> matrix \<Rightarrow> matrix list option \<Rightarrow> py_error + matrix"
  rt_last_dim :: "handle \<Rightarrow> py_error + int"
  rt_saver_save :: "handle \<Rightarrow> string \<Rightarrow> py_error option"

subsection \<open>Training\<close>

text \<open>\<^verbatim>\<open>max([x.shape[0] for x in X])\<close>.\<close>

definition max_seq_len :: "feats list \<Rightarrow> py_error + nat" where
  "max_seq_len X =
     (case map_err shape_first X of
        Inl e \<Rightarrow> Inl e
      | Inr [] \<Rightarrow> Inl ValueError
      | Inr (n # ns) \<Rightarrow> Inr (fold max ns n))"

text \<open>
  \<^verbatim>\<open>_to_sparse_tensor\<close>: \<^verbatim>\<open>x.tocoo()\<close> exists on sparse matrices only, and the
  shape reads \<^verbatim>\<open>array_of_sparse[0]\<close>.
\<close>

fun tocoo :: "feats \<Rightarrow> py_error + feats" where
  "tocoo (Sparse d rows) = Inr (Sparse d rows)"
| "tocoo x = Inl AttributeError"

definition to_sparse_tensor :: "tf_runtime \<Rightarrow> feats list \<Rightarrow> nat \<Rightarrow> py_error + handle" where
  "to_sparse_tensor rt array_of_sparse seq_len =
     (case map_err tocoo array_of_sparse of
        Inl e \<Rightarrow> Inl e
      | Inr coo \<Rightarrow>
         (case py_index array_of_sparse 0 of
            Inl e \<Rightarrow> Inl e
          | Inr x0 \<Rightarrow>
             (case shape_last x0 of
                Inl e \<Rightarrow> Inl e
              | Inr d \<Rightarrow> rt_sparse_tensor rt array_of_sparse seq_len d)))"

text \<open>\<^verbatim>\<open>xs[:n]\<close> for an integer \<open>n\<close>: a negative \<open>n\<close> counts from the end.\<close>

definition py_take :: "int \<Rightarrow> 'a list \<Rightarrow> 'a list" where
  "py_take n xs = (if 0 \<le> n then take (nat n) xs else take (length xs - nat (- n)) xs)"

text \<open>
  \<^verbatim>\<open>_create_tf_rnn_embed\<close>: the layers are TensorFlow's; the GPU and the transformer
  branch read \<^verbatim>\<open>layer_sizes[0]\<close>.
\<close>

definition create_tf_rnn_embed ::
  "tf_runtime \<Rightarrow> classifier \<Rightarrow> handle \<Rightarrow> int list \<Rightarrow> string \<Rightarrow> py_error + handle" where
  "create_tf_rnn_embed rt self x_in layer_sizes nm =
     (if \<not> fused_lstm self \<and> (gpu_lstm self \<or> transformer self) \<and> layer_sizes = []
      then Inl IndexError
      else rt_rnn_embed rt x_in layer_sizes nm)"

text \<open>
  The check of \<^verbatim>\<open>_tf_sim\<close> when the graph is built: the operations are TensorFlow's,
  the similarity type is tested in Python.
\<close>

definition tf_sim_graph :: "tf_runtime \<Rightarrow> classifier \<Rightarrow> handle \<Rightarrow> handle \<Rightarrow> py_error + handle" where
  "tf_sim_graph rt self a b =
     (if similarity_type self = ''cosine'' \<or> similarity_type self = ''inner''
      then rt_sim_ops rt a b
      else Inl ValueError)"

text \<open>
  \<^verbatim>\<open>_train_tf_dataset\<close>: the epochs \<^verbatim>\<open>range(self.epochs)\<close>, carrying
  \<open>(train_acc, last_loss)\<close>. \<^verbatim>\<open>ep_loss /= batches_per_epoch\<close> divides by the number
  of batches the iterator gave.
\<close>

definition train_epoch ::
  "tf_runtime \<Rightarrow> classifier \<Rightarrow> nat \<Rightarrow> real \<times> real \<Rightarrow> py_error + real \<times> real" where
  "train_epoch rt self ep acc =
     (case linearly_increasing_batch_size (batch_size self) (epochs self) (int ep) of
        Inl e \<Rightarrow> Inl e
      | Inr bsz \<Rightarrow>
         (case rt_run_epoch rt ep bsz of
            Inl e \<Rightarrow> Inl e
          | Inr losses \<Rightarrow>
              if losses = [] then Inl ZeroDivisionError
              else
                let ep_loss = sum_list losses / real (length losses)
                in if evaluate_on_num_examples self \<noteq> 0
                   then
                     if ep = 0 then
                       (case rt_train_acc rt ep of
                          Inl e \<Rightarrow> Inl e | Inr a \<Rightarrow> Inr (a, ep_loss))
                     else if evaluate_every_num_epochs self = 0 then Inl ZeroDivisionError
                     else if (int ep + 1) mod evaluate_every_num_epochs self = 0
                             \<or> int ep + 1 = epochs self
                     then (case rt_train_acc rt ep of
                             Inl e \<Rightarrow> Inl e | Inr a \<Rightarrow> Inr (a, ep_loss))
                     else Inr acc
                   else Inr acc))"

fun train_epochs ::
  "tf_runtime \<Rightarrow> classifier \<Rightarrow> nat list \<Rightarrow> real \<times> real \<Rightarrow> py_error + real \<times> real" where
  "train_epochs rt self [] acc = Inr acc"
| "train_epochs rt self (ep # eps) acc =
     (case train_epoch rt self ep acc of
        Inl e \<Rightarrow> Inl e
      | Inr acc1 \<Rightarrow> train_epochs rt self eps acc1)"

definition train_tf_dataset :: "tf_runtime \<Rightarrow> classifier \<Rightarrow> py_error + real \<times> real" where
  "train_tf_dataset rt self = train_epochs rt self [0..<nat (epochs self)] (0, 0)"

text \<open>
  How a call of \<^verbatim>\<open>train\<close> ends: it returns, it raises, or the interpreter is told
  to exit (\<^verbatim>\<open>exit()\<close> raises \<^verbatim>\<open>SystemExit\<close>, which ends the process unless a caller
  catches it). In each case the instance is as the assignments so far left it.
\<close>

datatype outcome = Returned classifier | Raised py_error classifier | Exited classifier

definition step :: "py_error + 'a \<Rightarrow> classifier \<Rightarrow> ('a \<Rightarrow> outcome) \<Rightarrow> outcome" where
  "step r s k = (case r of Inl e \<Rightarrow> Raised e s | Inr x \<Rightarrow> k x)"

text \<open>
  The evaluation slice: \<^verbatim>\<open>np.random.permutation(len(X))[:n]\<close>, the two sparse
  tensors of the chosen examples, and their dataset.
\<close>

definition make_val_dataset ::
  "tf_runtime \<Rightarrow> classifier \<Rightarrow> feats list \<Rightarrow> feats list \<Rightarrow> nat \<Rightarrow> nat
     \<Rightarrow> py_error + handle option" where
  "make_val_dataset rt self X Y X_seq_len Y_seq_len =
     (if evaluate_on_num_examples self \<noteq> 0
      then
        let ids = py_take (evaluate_on_num_examples self) (rt_permutation rt (length X))
        in case map_err (py_index X) ids of
             Inl e \<Rightarrow> Inl e
           | Inr Xv \<Rightarrow>
              (case to_sparse_tensor rt Xv X_seq_len of
                 Inl e \<Rightarrow> Inl e
               | Inr X_tensor_val \<Rightarrow>
                  (case map_err (py_index Y) ids of
                     Inl e \<Rightarrow> Inl e
                   | Inr Yv \<Rightarrow>
                      (case to_sparse_tensor rt Yv Y_seq_len of
                         Inl e \<Rightarrow> Inl e
                       | Inr Y_tensor_val \<Rightarrow>
                          (case rt_dataset rt X_tensor_val Y_tensor_val of
                             Inl e \<Rightarrow> Inl e
                           | Inr d \<Rightarrow> Inr (Some d)))))
      else Inr None)"

text \<open>
  The second part of \<^verbatim>\<open>train\<close>, inside \<^verbatim>\<open>with self.graph.as_default()\<close>: the
  datasets, the iterator and its placeholders, the two encoders, the similarity and the
  loss, the two initializers, the session, the epochs, and then \<^verbatim>\<open>exit()\<close>. The
  three statements after \<^verbatim>\<open>exit()\<close> (the table \<^verbatim>\<open>all_intents_embed_values\<close>, the
  placeholder \<^verbatim>\<open>all_intents_embed_in\<close> and the operation \<^verbatim>\<open>sim_all\<close>) are never
  reached, so the model has no branch for them.
\<close>

definition train_graph ::
  "tf_runtime \<Rightarrow> classifier \<Rightarrow> feats list \<Rightarrow> feats list \<Rightarrow> outcome" where
  "train_graph rt self X Y =
     (let s4 = self\<lparr>graph := Some (rt_graph rt)\<rparr>;
          nm_a = (if share_embedding self then ''a_and_b'' else ''a'');
          nm_b = (if share_embedding self then ''a_and_b'' else ''b'')
      in
      step (max_seq_len X) s4 (\<lambda>X_seq_len.
      step (max_seq_len Y) s4 (\<lambda>Y_seq_len.
      step (to_sparse_tensor rt X X_seq_len) s4 (\<lambda>X_tensor.
      step (to_sparse_tensor rt Y Y_seq_len) s4 (\<lambda>Y_tensor.
      step (rt_dataset rt X_tensor Y_tensor) s4 (\<lambda>train_dataset.
      step (make_val_dataset rt s4 X Y X_seq_len Y_seq_len) s4 (\<lambda>val_dataset.
      step (rt_iterator rt train_dataset) s4 (\<lambda>(it, a, b).
        let s5 = s4\<lparr>iterator := Some it, a_in := Some a, b_in := Some b\<rparr> in
      step (create_tf_rnn_embed rt s5 a (hidden_layers_sizes_a s5) nm_a) s5 (\<lambda>we.
        let s6 = s5\<lparr>word_embed := Some we\<rparr> in
      step (create_tf_rnn_embed rt s6 b (hidden_layers_sizes_b s6) nm_b) s6 (\<lambda>ie.
        let s7 = s6\<lparr>intent_embed := Some ie\<rparr> in
      step (tf_sim_graph rt s7 we ie) s7 (\<lambda>sim.
        let s8 = s7\<lparr>sim_op := Some sim\<rparr> in
      step (rt_minimize rt sim) s8 (\<lambda>(loss, train_op).
      step (rt_make_initializer rt it (Some train_dataset)) s8 (\<lambda>train_init_op.
      step (rt_make_initializer rt it val_dataset) s8 (\<lambda>val_init_op.
        let s9 = s8\<lparr>session := Some (rt_session rt)\<rparr> in
      step (train_tf_dataset rt s9) s9 (\<lambda>stat.
        Exited s9)))))))))))))))"

text \<open>\<^verbatim>\<open>train(self, training_data)\<close>.\<close>

definition train :: "tf_runtime \<Rightarrow> classifier \<Rightarrow> example list \<Rightarrow> outcome" where
  "train rt self training_data =
     (let intent_dict = create_intent_dict training_data
      in if length intent_dict < 2 then Returned self
         else case train_prepare self training_data intent_dict of
                Inl (e, s) \<Rightarrow> Raised e s
              | Inr (s, X, Y, intents_for_X) \<Rightarrow> train_graph rt s X Y)"

subsection \<open>Prediction\<close>

text \<open>
  The dictionaries that \<^verbatim>\<open>process\<close> sets on the message; \<^verbatim>\<open>None\<close> is the name
  of no intent.
\<close>

record prediction =
  name :: "string option"
  confidence :: real

text \<open>
  The features of the message as a dense array: \<^verbatim>\<open>X[0]\<close> is read first (it fails on
  \<^verbatim>\<open>None\<close> and on an empty array), a sparse matrix is made dense, a dense vector gets
  a leading axis.
\<close>

fun message_features :: "feats \<Rightarrow> py_error + matrix" where
  "message_features NoFeats = Inl TypeError"
| "message_features (Dense v) = (if v = [] then Inl IndexError else Inr [v])"
| "message_features (Sparse d rows) = (if rows = [] then Inl IndexError else Inr rows)"

text \<open>
  \<^verbatim>\<open>argsort\<close> gives the positions in ascending order of the values (the order among
  equal values is NumPy's choice; the model takes the stable one).
\<close>

definition argsort :: "real list \<Rightarrow> nat list" where
  "argsort xs = map snd (sort_key fst (zip xs [0..<length xs]))"

text \<open>
  \<^verbatim>\<open>_calculate_message_sim_all\<close>: the similarities of the message to all intents,
  flattened; the ids by descending similarity; the similarities sorted descending
  (\<^verbatim>\<open>message_sim[::-1].sort()\<close> sorts the reversed view in place), then clipped at 0
  under \<^verbatim>\<open>'cosine'\<close> or passed through a softmax under \<^verbatim>\<open>'inner'\<close>.
\<close>

definition calculate_message_sim_all ::
  "tf_runtime \<Rightarrow> classifier \<Rightarrow> handle \<Rightarrow> matrix \<Rightarrow> py_error + (nat list \<times> real list)" where
  "calculate_message_sim_all rt self sess X =
     (case rt_run_sim_all rt sess (sim_all self) X (all_intents_embed_values self) of
        Inl e \<Rightarrow> Inl e
      | Inr m \<Rightarrow>
          let flat = concat m;
              intent_ids = rev (argsort flat);
              sorted_sim = rev (sort flat);
              message_sim =
                (if similarity_type self = ''cosine''
                 then map (\<lambda>v. if v < 0 then 0 else v) sorted_sim
                 else if similarity_type self = ''inner''
                 then (let ex = map exp sorted_sim in map (\<lambda>v. v / sum_list ex) ex)
                 else sorted_sim)
          in Inr (intent_ids, message_sim))"

definition null_prediction :: prediction where
  "null_prediction = \<lparr>name = None, confidence = 0\<rparr>"

definition lookup_intent :: "(nat \<times> string) list option \<Rightarrow> nat \<Rightarrow> py_error + string" where
  "lookup_intent d i = (case d of None \<Rightarrow> Inl TypeError | Some items \<Rightarrow> dict_get items i)"

text \<open>
  \<^verbatim>\<open>process(self, message)\<close>: the pair of the values set as \<^verbatim>\<open>"intent"\<close> and
  \<^verbatim>\<open>"intent_ranking"\<close>. \<open>ranking_length\<close> is \<^verbatim>\<open>INTENT_RANKING_LENGTH\<close>, a
  constant of the package \<^verbatim>\<open>rasa_nlu.classifiers\<close>.
\<close>

definition process ::
  "tf_runtime \<Rightarrow> nat \<Rightarrow> classifier \<Rightarrow> feats \<Rightarrow> py_error + (prediction \<times> prediction list)" where
  "process rt ranking_length self features =
     (case session self of
        None \<Rightarrow> Inr (null_prediction, [])
      | Some sess \<Rightarrow>
         (case message_features features of
            Inl e \<Rightarrow> Inl e
          | Inr X \<Rightarrow>
             (case calculate_message_sim_all rt self sess X of
                Inl e \<Rightarrow> Inl e
              | Inr (intent_ids, message_sim) \<Rightarrow>
                  if list_ex (list_ex (\<lambda>v. v \<noteq> 0)) X \<and> intent_ids \<noteq> []
                  then
                    (case lookup_intent (inv_intent_dict self) (hd intent_ids) of
                       Inl e \<Rightarrow> Inl e
                     | Inr top_intent \<Rightarrow>
                        (case map_err (\<lambda>(intent_idx, score).
                                 case lookup_intent (inv_intent_dict self) intent_idx of
                                   Inl e \<Rightarrow> Inl e
                                 | Inr n \<Rightarrow> Inr \<lparr>name = Some n, confidence = score\<rparr>)
                               (take ranking_length (zip intent_ids message_sim)) of
                           Inl e \<Rightarrow> Inl e
                         | Inr intent_ranking \<Rightarrow>
                             Inr (\<lparr>name = Some top_intent, confidence = hd message_sim\<rparr>,
                                  intent_ranking)))
                  else Inr (null_prediction, []))))"

subsection \<open>Persistence\<close>

text \<open>
  The files of the model directory: what \<^verbatim>\<open>saver.save\<close> writes under the checkpoint
  path is one artifact, each \<^verbatim>\<open>pickle.dump\<close> another.
\<close>

datatype artifact =
  Checkpoint handle
  | PlaceholderDims int int
  | InvIntentDict "(nat \<times> string) list option"
  | EncodedAllIntents "feats list option"
  | AllIntentsEmbedValues "matrix list option"

type_synonym files = "(string \<times> artifact) list"

text \<open>Writing a file replaces what the path held.\<close>

definition write_file :: "files \<Rightarrow> string \<Rightarrow> artifact \<Rightarrow> files" where
  "write_file fs path content = (path, content) # filter (\<lambda>(p, c). p \<noteq> path) fs"

definition component_name :: string where
  "component_name = ''intent_classifier_tensorflow_embedding''"

text \<open>
  \<^verbatim>\<open>os.path.join(a, b)\<close> for a relative \<open>b\<close>, and \<^verbatim>\<open>os.path.dirname\<close>, as
  \<^verbatim>\<open>posixpath\<close> defines them.
\<close>

definition path_join :: "string \<Rightarrow> string \<Rightarrow> string" where
  "path_join a b = (if a = [] \<or> last a = CHR ''/'' then a @ b else a @ ''/'' @ b)"

definition dirname :: "string \<Rightarrow> string" where
  "dirname p =
     (let head = rev (dropWhile (\<lambda>c. c \<noteq> CHR ''/'') (rev p))
      in if head \<noteq> [] \<and> list_ex (\<lambda>c. c \<noteq> CHR ''/'') head
         then rev (dropWhile (\<lambda>c. c = CHR ''/'') (rev head))
         else head)"

text \<open>
  \<^verbatim>\<open>persist(self, model_dir)\<close>. \<open>makedirs\<close> is \<^verbatim>\<open>os.makedirs\<close>: its result is the
  error it raises other than \<^verbatim>\<open>EEXIST\<close>, if any. The result is the value of
  \<^verbatim>\<open>"classifier_file"\<close> in the returned dictionary, with the files; an exception comes
  with the files written before it.
\<close>

definition persist ::
  "tf_runtime \<Rightarrow> (string \<Rightarrow> py_error option) \<Rightarrow> classifier \<Rightarrow> files \<Rightarrow> string
     \<Rightarrow> (py_error \<times> files) + (string option \<times> files)" where
  "persist rt makedirs self fs model_dir =
     (case session self of
        None \<Rightarrow> Inr (None, fs)
      | Some sess \<Rightarrow>
          let checkpoint = path_join model_dir (component_name @ ''.ckpt'')
          in case makedirs (dirname checkpoint) of
               Some e \<Rightarrow> Inl (e, fs)
             | None \<Rightarrow>
                (case graph self of
                   None \<Rightarrow> Inl (AttributeError, fs)
                 | Some g \<Rightarrow>
                    (case rt_saver_save rt sess checkpoint of
                       Some e \<Rightarrow> Inl (e, fs)
                     | None \<Rightarrow>
                        let fs1 = write_file fs checkpoint (Checkpoint sess)
                        in case (case a_in self of
                                   None \<Rightarrow> Inl AttributeError
                                 | Some a \<Rightarrow> rt_last_dim rt a) of
                             Inl e \<Rightarrow> Inl (e, fs1)
                           | Inr da \<Rightarrow>
                              (case (case b_in self of
                                       None \<Rightarrow> Inl AttributeError
                                     | Some b \<Rightarrow> rt_last_dim rt b) of
                                 Inl e \<Rightarrow> Inl (e, fs1)
                               | Inr db \<Rightarrow>
                                  let fs2 = write_file fs1
                                        (path_join model_dir (component_name @ ''_placeholder_dims.pkl''))
                                        (PlaceholderDims da db);
                                      fs3 = write_file fs2
                                        (path_join model_dir (component_name @ ''_inv_intent_dict.pkl''))
                                        (InvIntentDict (inv_intent_dict self));
                                      fs4 = write_file fs3
                                        (path_join model_dir (component_name @ ''_encoded_all_intents.pkl''))
                                        (EncodedAllIntents (encoded_all_intents self));
                                      fs5 = write_file fs4
                                        (path_join model_dir
                                           (component_name @ ''_all_intents_embed_values.pkl''))
                                        (AllIntentsEmbedValues (all_intents_embed_values self))
                                  in Inr (Some (component_name @ ''.ckpt''), fs5)))))"

subsection \<open>Negative sampling\<close>

text \<open>
  \<^verbatim>\<open>np.random.choice(pool, size=n)\<close> draws \<open>n\<close> elements of the pool with
  replacement. The generator is a parameter: \<open>draw k\<close> is its \<open>k\<close>-th number, reduced
  to a position of the pool. A negative size raises, and so does an empty pool unless no
  sample is taken.
\<close>

definition random_choice :: "'a list \<Rightarrow> int \<Rightarrow> (nat \<Rightarrow> nat) \<Rightarrow> py_error + 'a list" where
  "random_choice pool n draw =
     (if n < 0 then Inl ValueError
      else if pool = [] \<and> n \<noteq> 0 then Inl ValueError
      else Inr (map (\<lambda>k. pool ! (draw k mod length pool)) [0..<nat n]))"

text \<open>\<^verbatim>\<open>self.iou[i, j] < 0.66\<close>: \<^verbatim>\<open>self.iou\<close> is \<^verbatim>\<open>None\<close> unless a caller set it.\<close>

definition iou_below :: "matrix option \<Rightarrow> nat \<Rightarrow> nat \<Rightarrow> py_error + bool" where
  "iou_below table i j =
     (case table of
        None \<Rightarrow> Inl TypeError
      | Some m \<Rightarrow>
         (case py_index m i of
            Inl e \<Rightarrow> Inl e
          | Inr row \<Rightarrow>
             (case py_index row j of
                Inl e \<Rightarrow> Inl e
              | Inr v \<Rightarrow> Inr (v < 66 / 100))))"

text \<open>A list comprehension with a condition that may raise.\<close>

fun filter_err :: "('a \<Rightarrow> py_error + bool) \<Rightarrow> 'a list \<Rightarrow> py_error + 'a list" where
  "filter_err f [] = Inr []"
| "filter_err f (x # xs) =
     (case f x of
        Inl e \<Rightarrow> Inl e
      | Inr c \<Rightarrow>
         (case filter_err f xs of
            Inl e \<Rightarrow> Inl e
          | Inr ys \<Rightarrow> Inr (if c then x # ys else ys)))"

text \<open>
  \<^verbatim>\<open>_create_batch_b\<close>, strategy (a). For the row \<open>b\<close> of the batch the eligible ids
  \<^verbatim>\<open>negative_indexes\<close> are those of the intent table other than \<^verbatim>\<open>intent_ids[b]\<close>
  (or, with \<^verbatim>\<open>use_iou\<close>, those of small IoU), and \<^verbatim>\<open>negs\<close> is drawn among them.
\<close>

definition table_negative_indexes ::
  "classifier \<Rightarrow> nat \<Rightarrow> nat list \<Rightarrow> nat \<Rightarrow> py_error + nat list" where
  "table_negative_indexes self n intent_ids b =
     (if use_iou self
      then filter_err (\<lambda>i.
             case py_index intent_ids b of
               Inl e \<Rightarrow> Inl e
             | Inr own \<Rightarrow> iou_below (iou self) i own)
             [0..<n]
      else filter_err (\<lambda>i.
             case py_index intent_ids b of
               Inl e \<Rightarrow> Inl e
             | Inr own \<Rightarrow> Inr (i \<noteq> own))
             [0..<n])"

definition create_batch_b_negs ::
  "classifier \<Rightarrow> nat \<Rightarrow> nat list \<Rightarrow> (nat \<Rightarrow> nat \<Rightarrow> nat) \<Rightarrow> nat \<Rightarrow> py_error + nat list" where
  "create_batch_b_negs self n intent_ids draw b =
     (case table_negative_indexes self n intent_ids b of
        Inl e \<Rightarrow> Inl e
      | Inr negative_indexes \<Rightarrow> random_choice negative_indexes (num_neg self) (draw b))"

text \<open>
  The batch of \<^verbatim>\<open>_create_batch_b\<close>: per row the positive intent, then the rows of
  the intent table at the sampled ids. \<^verbatim>\<open>np.zeros\<close> refuses a negative \<^verbatim>\<open>num_neg\<close>.
\<close>

definition create_batch_b ::
  "classifier \<Rightarrow> feats list \<Rightarrow> nat list \<Rightarrow> (nat \<Rightarrow> nat \<Rightarrow> nat) \<Rightarrow> py_error + feats list list" where
  "create_batch_b self batch_pos_b intent_ids draw =
     (case encoded_all_intents self of
        None \<Rightarrow> Inl AttributeError
      | Some enc \<Rightarrow>
          if num_neg self < 0 then Inl ValueError
          else map_err (\<lambda>b.
                 case create_batch_b_negs self (length enc) intent_ids draw b of
                   Inl e \<Rightarrow> Inl e
                 | Inr negs \<Rightarrow> Inr (batch_pos_b ! b # map (\<lambda>i. enc ! i) negs))
               [0..<length batch_pos_b])"

text \<open>
  \<^verbatim>\<open>_negs_from_batch\<close>, strategy (b) of the legacy loop \<^verbatim>\<open>_train_tf\<close>. For the
  row \<open>b\<close> the eligible positions are those of the batch whose positive row differs from
  row \<open>b\<close> (\<^verbatim>\<open>np.array_equal\<close>); the result holds, per row, the one-hot rows
  \<^verbatim>\<open>np.eye(B)[negs_ids]\<close>.
\<close>

definition batch_negative_indexes ::
  "classifier \<Rightarrow> matrix \<Rightarrow> nat list \<Rightarrow> nat \<Rightarrow> py_error + nat list" where
  "batch_negative_indexes self batch_pos_b intent_ids b =
     (if use_iou self
      then filter_err (\<lambda>i.
             case py_index intent_ids i of
               Inl e \<Rightarrow> Inl e
             | Inr ii \<Rightarrow>
                (case py_index intent_ids b of
                   Inl e \<Rightarrow> Inl e
                 | Inr ib \<Rightarrow> iou_below (iou self) ii ib))
             [0..<length batch_pos_b]
      else Inr (filter (\<lambda>i. batch_pos_b ! i \<noteq> batch_pos_b ! b) [0..<length batch_pos_b]))"

definition negs_from_batch_ids ::
  "classifier \<Rightarrow> matrix \<Rightarrow> nat list \<Rightarrow> (nat \<Rightarrow> nat \<Rightarrow> nat) \<Rightarrow> nat \<Rightarrow> py_error + nat list" where
  "negs_from_batch_ids self batch_pos_b intent_ids draw b =
     (case batch_negative_indexes self batch_pos_b intent_ids b of
        Inl e \<Rightarrow> Inl e
      | Inr negative_indexes \<Rightarrow> random_choice negative_indexes (num_neg self) (draw b))"

definition negs_from_batch ::
  "classifier \<Rightarrow> matrix \<Rightarrow> nat list \<Rightarrow> (nat \<Rightarrow> nat \<Rightarrow> nat) \<Rightarrow> py_error + matrix list" where
  "negs_from_batch self batch_pos_b intent_ids draw =
     map_err (\<lambda>b.
        case negs_from_batch_ids self batch_pos_b intent_ids draw b of
          Inl e \<Rightarrow> Inl e
        | Inr negs_ids \<Rightarrow> Inr (map (\<lambda>i. eye (length batch_pos_b) ! i) negs_ids))
      [0..<length batch_pos_b]"

text \<open>
  The sampler that \<^verbatim>\<open>train\<close> builds into the graph:
  \<^verbatim>\<open>tf.random.categorical(tf.log(1. - tf.eye(B)), 3)\<close>. The logit of position \<open>j\<close> in
  row \<open>b\<close> is the logarithm of the weight \<open>1 - eye[b][j]\<close>, so a draw falls on a
  position of positive weight; for a row without one TensorFlow specifies no result,
  and the model returns the generator's number. The number of samples is the literal 3.
\<close>

definition categorical_row :: "real list \<Rightarrow> nat \<Rightarrow> (nat \<Rightarrow> nat) \<Rightarrow> nat list" where
  "categorical_row weights num_samples draw =
     (let support = filter (\<lambda>j. 0 < weights ! j) [0..<length weights]
      in map (\<lambda>k. if support = [] then draw k else support ! (draw k mod length support))
           [0..<num_samples])"

definition graph_negs_ids :: "nat \<Rightarrow> (nat \<Rightarrow> nat \<Rightarrow> nat) \<Rightarrow> nat list list" where
  "graph_negs_ids B draw =
     map (\<lambda>b. categorical_row (map (\<lambda>v. 1 - v) (eye B ! b)) 3 (draw b)) [0..<B]"

text \<open>
  \<^verbatim>\<open>_tf_sample_neg(emb_b, is_training, neg_ids)\<close>: \<open>all_b\<close> repeats the batch of
  intent embeddings for every row; in training, with more than one row of ids, row \<open>b\<close>
  becomes its own embedding followed by the embeddings at \<open>neg_ids[b]\<close>
  (\<^verbatim>\<open>tf.batch_gather\<close>).
\<close>

definition tf_sample_neg :: "matrix \<Rightarrow> bool \<Rightarrow> nat list list \<Rightarrow> matrix list" where
  "tf_sample_neg emb_b is_training neg_ids =
     (let all_b = replicate (length emb_b) emb_b
      in if is_training \<and> length neg_ids > 1
         then map (\<lambda>(row, ids). row # map (\<lambda>j. emb_b ! j) ids) (zip emb_b neg_ids)
         else all_b)"

subsection \<open>Similarity and loss\<close>

text \<open>
  \<^verbatim>\<open>tf.nn.l2_normalize(x, -1)\<close> is \<^verbatim>\<open>x * rsqrt(maximum(reduce_sum(square(x)), epsilon))\<close>
  with TensorFlow's default \<^verbatim>\<open>epsilon = 1e-12\<close>, along the last axis.
\<close>

definition l2_epsilon :: real where
  "l2_epsilon = 1 / 10 ^ 12"

definition square_sum :: "vec \<Rightarrow> real" where
  "square_sum x = (\<Sum>u\<leftarrow>x. u * u)"

definition l2_normalize :: "vec \<Rightarrow> vec" where
  "l2_normalize x = map (\<lambda>u. u * (1 / sqrt (max (square_sum x) l2_epsilon))) x"

text \<open>\<^verbatim>\<open>tf.reduce_sum(x * y, -1)\<close> for two vectors of the embedding dimension.\<close>

definition dot :: "vec \<Rightarrow> vec \<Rightarrow> real" where
  "dot x y = (\<Sum>(u, v)\<leftarrow>zip x y. u * v)"

text \<open>
  \<^verbatim>\<open>_tf_sim(self, a, b)\<close>: \<open>a\<close> has shape \<open>[B, D]\<close> (one embedding per message),
  \<open>b\<close> has shape \<open>[B, N, D]\<close> (per message its candidate intents, the true one first).
  \<open>sim[i][k]\<close> is the product of \<open>a[i]\<close> with \<open>b[i][k]\<close>, \<open>sim_emb[i][j]\<close> that of
  \<open>b[i][0]\<close> with \<open>b[i][1 + j]\<close> (the slices \<^verbatim>\<open>b[:, 0:1, :]\<close> and \<^verbatim>\<open>b[:, 1:, :]\<close>).
\<close>

definition tf_sim :: "classifier \<Rightarrow> matrix \<Rightarrow> matrix list \<Rightarrow> py_error + (matrix \<times> matrix)" where
  "tf_sim self a b =
     (let a1 = (if similarity_type self = ''cosine'' then map l2_normalize a else a);
          b1 = (if similarity_type self = ''cosine'' then map (map l2_normalize) b else b)
      in if similarity_type self = ''cosine'' \<or> similarity_type self = ''inner''
         then Inr (map (\<lambda>(x, cands). map (dot x) cands) (zip a1 b1),
                   map (\<lambda>cands. case cands of [] \<Rightarrow> [] | t # negs \<Rightarrow> map (dot t) negs) b1)
         else Inl ValueError)"

text \<open>
  Reductions. \<^verbatim>\<open>tf.reduce_max\<close> over an empty axis is \<open>-inf\<close>, and
  \<^verbatim>\<open>tf.maximum(0., -inf)\<close> is 0; \<^verbatim>\<open>tf.reduce_mean\<close> of an empty tensor is
  \<open>nan\<close>, here \<open>None\<close>.
\<close>

datatype xreal = NegInf | Fin real

fun reduce_max :: "real list \<Rightarrow> xreal" where
  "reduce_max [] = NegInf"
| "reduce_max (x # xs) = Fin (fold max xs x)"

fun xadd :: "real \<Rightarrow> xreal \<Rightarrow> xreal" where
  "xadd c NegInf = NegInf"
| "xadd c (Fin v) = Fin (c + v)"

fun maximum0 :: "xreal \<Rightarrow> real" where
  "maximum0 NegInf = 0"
| "maximum0 (Fin v) = max 0 v"

definition reduce_mean :: "real list \<Rightarrow> real option" where
  "reduce_mean xs = (if xs = [] then None else Some (sum_list xs / real (length xs)))"

text \<open>
  \<^verbatim>\<open>sim[:, 0]\<close>: the first column; a tensor without columns has none.
  \<^verbatim>\<open>x + y\<close> on two vectors: elementwise, a vector of length 1 is broadcast.
\<close>

definition column0 :: "matrix \<Rightarrow> py_error + vec" where
  "column0 m = (if list_all (\<lambda>r. r \<noteq> []) m then Inr (map hd m) else Inl ShapeError)"

definition tf_add :: "vec \<Rightarrow> vec \<Rightarrow> py_error + vec" where
  "tf_add x y =
     (if length x = length y then Inr (map (\<lambda>(u, v). u + v) (zip x y))
      else if length x = 1 then Inr (map (\<lambda>v. hd x + v) y)
      else if length y = 1 then Inr (map (\<lambda>u. u + hd y) x)
      else Inl ShapeError)"

text \<open>
  \<^verbatim>\<open>_tf_loss(self, sim, sim_emb)\<close>; \<open>reg\<close> is the value of
  \<^verbatim>\<open>tf.losses.get_regularization_loss()\<close>.
\<close>

definition tf_loss :: "classifier \<Rightarrow> real \<Rightarrow> matrix \<Rightarrow> matrix \<Rightarrow> py_error + real option" where
  "tf_loss self reg sim sim_emb =
     (case column0 sim of
        Inl e \<Rightarrow> Inl e
      | Inr pos \<Rightarrow>
          let loss = map (\<lambda>s. max 0 (mu_pos self - s)) pos;
              neg = (if use_max_sim_neg self
                     then map (\<lambda>r. maximum0 (xadd (mu_neg self) (reduce_max (tl r)))) sim
                     else map (\<lambda>r. sum_list (map (\<lambda>s. max 0 (mu_neg self + s)) (tl r))) sim)
          in case tf_add loss neg of
               Inl e \<Rightarrow> Inl e
             | Inr loss1 \<Rightarrow>
                 let max_sim_emb = map (\<lambda>r. maximum0 (reduce_max r)) sim_emb
                 in case tf_add loss1 (map (\<lambda>m. m * C_emb self) max_sim_emb) of
                      Inl e \<Rightarrow> Inl e
                    | Inr loss2 \<Rightarrow>
                        Inr (map_option (\<lambda>m. m + reg) (reduce_mean loss2)))"

text \<open>
  The loss as the specification words it, row by row: the positive margin, the negative
  term (hardest negative or sum over the negatives), the penalty on the similarity among
  intents, averaged over the batch, plus the regularization loss.
\<close>

definition spec_row_loss :: "classifier \<Rightarrow> vec \<Rightarrow> vec \<Rightarrow> real" where
  "spec_row_loss self r e =
     max 0 (mu_pos self - r ! 0)
     + (if use_max_sim_neg self then max 0 (mu_neg self + Max (set (tl r)))
        else (\<Sum>s\<leftarrow>tl r. max 0 (mu_neg self + s)))
     + C_emb self * max 0 (Max (set e))"

definition spec_loss :: "classifier \<Rightarrow> real \<Rightarrow> matrix \<Rightarrow> matrix \<Rightarrow> real" where
  "spec_loss self reg sim sim_emb =
     (\<Sum>i<length sim. spec_row_loss self (sim ! i) (sim_emb ! i)) / real (length sim) + reg"

subsection \<open>Concrete inputs\<close>

text \<open>
  A runtime in which every TensorFlow call succeeds: it hands out handles, gives one
  batch of loss \<open>1/2\<close> per epoch and scores the message \<open>[-3/10, 9/10]\<close> against two
  intents.
\<close>

definition rt0 :: tf_runtime where
  "rt0 =
     \<lparr>rt_graph = 1,
      rt_permutation = (\<lambda>n. [0..<n]),
      rt_sparse_tensor = (\<lambda>xs seq_len d. Inr 2),
      rt_dataset = (\<lambda>x y. Inr 3),
      rt_iterator = (\<lambda>d. Inr (4, 5, 6)),
      rt_rnn_embed = (\<lambda>x sizes nm. Inr 7),
      rt_sim_ops = (\<lambda>a b. Inr 8),
      rt_minimize = (\<lambda>sim. Inr (9, 10)),
      rt_make_initializer = (\<lambda>it d. Inr 11),
      rt_session = 12,
      rt_run_epoch = (\<lambda>ep bsz. Inr [1 / 2]),
      rt_train_acc = (\<lambda>ep. Inr 1),
      rt_run_sim_all = (\<lambda>sess fetch X emb. Inr [[- (3 / 10), 9 / 10]]),
      rt_last_dim = (\<lambda>t. Inr 2),
      rt_saver_save = (\<lambda>sess path. None)\<rparr>"

text \<open>
  Training data with the intents \<open>greet\<close> and \<open>bye\<close>, sparse features on both sides,
  and a configuration with intent tokenization and one epoch.
\<close>

definition td0 :: "example list" where
  "td0 =
     [\<lparr>intent = ''greet'', text_features = Sparse 2 [[1, 0]],
       intent_features = Sparse 2 [[1, 0]]\<rparr>,
      \<lparr>intent = ''bye'', text_features = Sparse 2 [[0, 1], [1, 1]],
       intent_features = Sparse 2 [[0, 1]]\<rparr>,
      \<lparr>intent = ''greet'', text_features = Sparse 2 [[1, 1]],
       intent_features = Sparse 2 [[1, 0]]\<rparr>]"

definition td1 :: "example list" where
  "td1 =
     [\<lparr>intent = ''greet'', text_features = Sparse 2 [[1, 0]],
       intent_features = Sparse 2 [[1, 0]]\<rparr>,
      \<lparr>intent = ''greet'', text_features = Sparse 2 [[1, 1]],
       intent_features = Sparse 2 [[1, 0]]\<rparr>]"

definition cfg0 :: config where
  "cfg0 = defaults\<lparr>intent_tokenization_flag := True, epochs := 1\<rparr>"

text \<open>
  An instance as \<^verbatim>\<open>load\<close> restores it: a session, a graph, the placeholders and the
  operations, the inverse intent dictionary and the two tables.
\<close>

definition loaded :: "config \<Rightarrow> classifier" where
  "loaded p =
     (fresh p)
       \<lparr>inv_intent_dict := Some [(0, ''bye''), (1, ''greet'')],
        encoded_all_intents := Some [Sparse 2 [[0, 1]], Sparse 2 [[1, 0]]],
        all_intents_embed_values := Some [[[0, 1], [1, 0]]],
        session := Some 12, graph := Some 1, a_in := Some 5, b_in := Some 6,
        sim_op := Some 8, all_intents_embed_in := Some 13, sim_all := Some 14,
        word_embed := Some 7, intent_embed := Some 7\<rparr>"

subsection \<open>Properties of the batch-size schedule\<close>









subsection \<open>Properties of training\<close>

lemmas cfg_simps = fresh_def cfg0_def defaults_def config.defs classifier.defs

lemma step_not_Returned: "(\<And>x. k x \<noteq> Returned t) \<Longrightarrow> step r s k \<noteq> Returned t"
  by (cases r) (simp_all add: step_def)

lemma train_graph_not_Returned: "train_graph rt s X Y \<noteq> Returned t"
  unfolding train_graph_def Let_def
  by (rule step_not_Returned | simp only: split_def)+ simp

lemma length_create_intent_dict:
  "length (create_intent_dict td) = card (intent ` set td)"
  by (simp add: create_intent_dict_def Let_def length_remdups_card_conv)

lemma step_Exited_iff: "(step r s k = Exited t) = (\<exists>x. r = Inr x \<and> k x = Exited t)"
  by (cases r) (simp_all add: step_def)

lemma train_graph_Exited:
  assumes "train_graph rt s X Y = Exited t"
  shows "session t = Some (rt_session rt) \<and> num_neg t = num_neg s \<and>
     all_intents_embed_values t = all_intents_embed_values s \<and>
     all_intents_embed_in t = all_intents_embed_in s \<and> sim_all t = sim_all s"
  using assms unfolding train_graph_def Let_def step_Exited_iff split_def
  by auto

lemma encode_items_length:
  "encode_items ex items acc = Inr enc \<Longrightarrow> length enc = length acc + length items"
proof (induction items arbitrary: acc)
  case Nil
  then show ?case by simp
next
  case (Cons p items)
  obtain key idx where p: "p = (key, idx)" by (cases p)
  from Cons.prems p obtain e where
    "find_example_for_intent key ex = Some e"
    "encode_items ex items (py_insert acc idx (intent_features e)) = Inr enc"
    by (auto split: option.splits)
  from Cons.IH [OF this(2)] show ?case
    by (simp add: py_insert_def)
qed

lemma create_encoded_intents_length:
  "create_encoded_intents s d td = Inr enc \<Longrightarrow> length enc = length d"
  by (auto simp: create_encoded_intents_def eye_def dest: encode_items_length split: if_splits)

lemma train_prepare_Inr:
  assumes "train_prepare self td d = Inr (s, X, Y, ids)"
  shows "num_neg s = min (num_neg self) (int (length d) - 1) \<and>
     session s = session self \<and> similarity_type s = similarity_type self \<and>
     all_intents_embed_values s = all_intents_embed_values self \<and>
     all_intents_embed_in s = all_intents_embed_in self \<and> sim_all s = sim_all self"
  using assms unfolding train_prepare_def Let_def
  by (auto split: sum.splits prod.splits if_splits dest: create_encoded_intents_length)

lemma train_prepare_Inl:
  assumes "train_prepare self td d = Inl (e, s)"
  shows "session s = session self"
  using assms unfolding train_prepare_def Let_def
  by (auto split: sum.splits prod.splits if_splits)

lemma train_graph_unsupported:
  assumes "similarity_type s \<noteq> ''cosine''" "similarity_type s \<noteq> ''inner''"
  shows "\<exists>e t. train_graph rt s X Y = Raised e t \<and> session t = session s"
  using assms unfolding train_graph_def Let_def step_def tf_sim_graph_def
  by (auto split: sum.splits prod.splits)

lemmas train_defs =
  train_def create_intent_dict_def train_prepare_def create_encoded_intents_def
  find_example_for_intent_def py_insert_def prepare_data_for_training_def np_stack_def
  dict_get_def compute_sequence_def is_2d_def train_graph_def step_def max_seq_len_def
  to_sparse_tensor_def py_index_def make_val_dataset_def py_take_def create_tf_rnn_embed_def
  tf_sim_graph_def train_tf_dataset_def train_epoch_def linearly_increasing_batch_size_def
  eye_def

lemma td0_intents: "card (intent ` set td0) = 2"
  unfolding length_create_intent_dict [symmetric]
  by (simp add: create_intent_dict_def td0_def)

lemma td1_intents: "card (intent ` set td1) = 1"
  unfolding length_create_intent_dict [symmetric]
  by (simp add: create_intent_dict_def td1_def)

lemma train_at_td0:
  "\<exists>t. train rt0 (fresh cfg0) td0 = Exited t \<and> session t = Some 12 \<and> num_neg t = 1 \<and>
     all_intents_embed_values t = None \<and> all_intents_embed_in t = None \<and> sim_all t = None"
  by (simp add: train_defs rt0_def td0_def cfg_simps)

text \<open>
  Claim C1 asks that \<^verbatim>\<open>train\<close> on data with at least two intents runs through graph
  construction, the epochs, the table of all intent embeddings and \<^verbatim>\<open>sim_all\<close>, and
  returns. It does not: whatever the runtime does, such a call raises or ends in
  \<^verbatim>\<open>exit()\<close> right after the epochs, and then the table, its placeholder and
  \<^verbatim>\<open>sim_all\<close> are what they were before the call.
\<close>

theorem train_exits_before_returning:
  assumes "2 \<le> card (intent ` set td)"
  shows "(\<exists>e t. train rt self td = Raised e t) \<or>
     (\<exists>t. train rt self td = Exited t \<and>
        all_intents_embed_values t = all_intents_embed_values self \<and>
        all_intents_embed_in t = all_intents_embed_in self \<and> sim_all t = sim_all self)"
proof -
  let ?d = "create_intent_dict td"
  have big: "\<not> length ?d < 2"
    using assms by (simp add: length_create_intent_dict)
  show ?thesis
  proof (cases "train_prepare self td ?d")
    case (Inl p)
    then show ?thesis
      using big by (cases p) (simp add: train_def)
  next
    case (Inr q)
    obtain s X Y ids where q: "q = (s, X, Y, ids)"
      by (cases q)
    have tr: "train rt self td = train_graph rt s X Y"
      using big Inr q by (simp add: train_def)
    show ?thesis
    proof (cases "train_graph rt s X Y")
      case (Returned t)
      then show ?thesis
        using train_graph_not_Returned by blast
    next
      case (Raised e t)
      then show ?thesis
        using tr by simp
    next
      case (Exited t)
      then show ?thesis
        using tr train_graph_Exited [OF Exited] train_prepare_Inr [OF Inr [unfolded q]]
        by simp
    qed
  qed
qed

theorem train_exits_before_returning_witness:
  "2 \<le> card (intent ` set td0) \<and>
   (\<exists>t. train rt0 (fresh cfg0) td0 = Exited t \<and> session t = Some 12 \<and>
      all_intents_embed_values t = None \<and> sim_all t = None)"
  using train_exits_before_returning [of td0 rt0 "fresh cfg0"] td0_intents train_at_td0
  by auto

text \<open>
  Claim C5: on training data with fewer than two distinct intents \<^verbatim>\<open>train\<close> returns
  the instance as it was (no graph, no session, no table is assigned), and if the
  instance had no session, \<^verbatim>\<open>process\<close> on the instance that \<^verbatim>\<open>train\<close> left sets
  the intent \<open>{name: None, confidence: 0.0}\<close> and an empty ranking.
\<close>

theorem train_skipped_below_two_intents:
  assumes "card (intent ` set td) < 2"
  shows "train rt self td = Returned self \<and>
     (session self = None \<longrightarrow>
        (case train rt self td of
           Returned s \<Rightarrow> process rt ranking_length s features = Inr (null_prediction, [])
         | Raised e s \<Rightarrow> False
         | Exited s \<Rightarrow> False))"
  using assms by (simp add: train_def length_create_intent_dict process_def)

theorem train_skipped_below_two_intents_witness:
  "card (intent ` set td1) < 2 \<and> train rt0 (fresh cfg0) td1 = Returned (fresh cfg0) \<and>
   session (fresh cfg0) = None \<and>
   process rt0 10 (fresh cfg0) (Sparse 2 [[1, 0]]) = Inr (\<lparr>name = None, confidence = 0\<rparr>, [])"
proof -
  have h: "card (intent ` set td1) < 2"
    using td1_intents by simp
  have n: "session (fresh cfg0) = None"
    by (simp add: cfg_simps)
  note th = train_skipped_below_two_intents [OF h, of rt0 "fresh cfg0" 10 "Sparse 2 [[1, 0]]"]
  from th have r: "train rt0 (fresh cfg0) td1 = Returned (fresh cfg0)"
    by blast
  from th n r have "process rt0 10 (fresh cfg0) (Sparse 2 [[1, 0]]) = Inr (null_prediction, [])"
    by simp
  then show ?thesis
    using h n r by (simp add: null_prediction_def)
qed

text \<open>
  Claim C6: with \<open>n \<ge> 2\<close> distinct intents, \<^verbatim>\<open>num_neg\<close> after the clamp (the last
  assignment of the first part of \<^verbatim>\<open>train\<close>, and still its value when \<^verbatim>\<open>train\<close>
  ends) is at most \<open>n - 1\<close>, and is the configured value when that is at most \<open>n - 1\<close>.
\<close>

theorem num_neg_clamped:
  assumes "2 \<le> card (intent ` set td)"
  shows "(train_prepare self td (create_intent_dict td) = Inr (s, X, Y, ids) \<longrightarrow>
            num_neg s \<le> int (card (intent ` set td)) - 1 \<and>
            (num_neg self \<le> int (card (intent ` set td)) - 1 \<longrightarrow> num_neg s = num_neg self)) \<and>
         (train rt self td = Exited t \<longrightarrow>
            num_neg t \<le> int (card (intent ` set td)) - 1 \<and>
            (num_neg self \<le> int (card (intent ` set td)) - 1 \<longrightarrow> num_neg t = num_neg self))"
proof -
  let ?d = "create_intent_dict td"
  have len: "length ?d = card (intent ` set td)"
    by (rule length_create_intent_dict)
  have prep: "num_neg s' = min (num_neg self) (int (card (intent ` set td)) - 1)"
    if "train_prepare self td ?d = Inr (s', X', Y', ids')" for s' X' Y' ids'
    using train_prepare_Inr [OF that] len by simp
  have ex: "num_neg t = min (num_neg self) (int (card (intent ` set td)) - 1)"
    if t: "train rt self td = Exited t"
  proof (cases "train_prepare self td ?d")
    case (Inl p)
    then show ?thesis
      using t assms len by (cases p) (simp add: train_def)
  next
    case (Inr q)
    obtain s' X' Y' ids' where q: "q = (s', X', Y', ids')"
      by (cases q)
    have "train_graph rt s' X' Y' = Exited t"
      using t assms len Inr q by (simp add: train_def)
    from train_graph_Exited [OF this] prep [OF Inr [unfolded q]] show ?thesis
      by simp
  qed
  show ?thesis
    using prep ex by auto
qed

theorem num_neg_clamped_witness:
  "2 \<le> card (intent ` set td0) \<and> num_neg (fresh cfg0) = 20 \<and>
   (\<exists>t. train rt0 (fresh cfg0) td0 = Exited t \<and> num_neg t = 1) \<and>
   num_neg (fresh (cfg0\<lparr>num_neg := 1\<rparr>)) = 1 \<and>
   (\<exists>t. train rt0 (fresh (cfg0\<lparr>num_neg := 1\<rparr>)) td0 = Exited t \<and> num_neg t = 1)"
proof -
  have h: "2 \<le> card (intent ` set td0)"
    using td0_intents by simp
  obtain t where t: "train rt0 (fresh cfg0) td0 = Exited t" "num_neg t = 1"
    using train_at_td0 by blast
  have a: "num_neg (fresh cfg0) = 20"
    by (simp add: cfg_simps)
  have "\<exists>u. train rt0 (fresh (cfg0\<lparr>num_neg := 1\<rparr>)) td0 = Exited u"
    by (simp add: train_defs rt0_def td0_def cfg_simps)
  then obtain u where u: "train rt0 (fresh (cfg0\<lparr>num_neg := 1\<rparr>)) td0 = Exited u"
    by blast
  have c: "num_neg (fresh (cfg0\<lparr>num_neg := 1\<rparr>)) = 1"
    by (simp add: cfg_simps)
  have "num_neg u = 1"
    using num_neg_clamped [OF h, of "fresh (cfg0\<lparr>num_neg := 1\<rparr>)" _ _ _ _ rt0 u] u c
      td0_intents
    by simp
  then show ?thesis
    using h t a c u by blast
qed

subsection \<open>Properties of construction\<close>

lemmas init_defs = init_def load_params_def load_nn_architecture_params_def
  load_embedding_params_def load_visual_params_def load_flag_if_tokenize_intents_def

lemma train_unsupported_similarity:
  assumes sim: "similarity_type self \<noteq> ''cosine''" "similarity_type self \<noteq> ''inner''"
    and n: "2 \<le> card (intent ` set td)"
  shows "\<exists>e t. train rt self td = Raised e t \<and> session t = session self"
proof -
  let ?d = "create_intent_dict td"
  have big: "\<not> length ?d < 2"
    using n by (simp add: length_create_intent_dict)
  show ?thesis
  proof (cases "train_prepare self td ?d")
    case (Inl p)
    obtain e s where p: "p = (e, s)" by (cases p)
    from train_prepare_Inl [OF Inl [unfolded p]] show ?thesis
      using big Inl p by (simp add: train_def)
  next
    case (Inr q)
    obtain s X Y ids where q: "q = (s, X, Y, ids)"
      by (cases q)
    note pr = train_prepare_Inr [OF Inr [unfolded q]]
    have "\<exists>e t. train_graph rt s X Y = Raised e t \<and> session t = session s"
      using sim pr by (intro train_graph_unsupported) simp_all
    then show ?thesis
      using big Inr q pr by (simp add: train_def)
  qed
qed

text \<open>
  Claim C7, as the code has it. More than one of the flags \<^verbatim>\<open>gpu_lstm\<close>,
  \<^verbatim>\<open>fused_lstm\<close>, \<^verbatim>\<open>transformer\<close>, or shared embeddings with differing lists of
  hidden-layer sizes, raise \<^verbatim>\<open>ValueError\<close> in \<^verbatim>\<open>__init__\<close>. The similarity type is
  not looked at there: a configuration that passes the architecture checks constructs an
  instance holding the configured type. An unsupported type raises when \<^verbatim>\<open>train\<close> is
  called on data with at least two intents, and that call ends in an exception before it
  assigns a session, so before any epoch runs.
\<close>

theorem fatal_configuration_errors:
  "((gpu_lstm cfg \<and> fused_lstm cfg) \<or> (transformer cfg \<and> fused_lstm cfg)
      \<or> (gpu_lstm cfg \<and> transformer cfg) \<longrightarrow> init True cfg = Inl ValueError) \<and>
   (share_embedding cfg \<and> hidden_layers_sizes_a cfg \<noteq> hidden_layers_sizes_b cfg
      \<longrightarrow> init True cfg = Inl ValueError) \<and>
   (load_nn_architecture_params cfg = Inr cfg
      \<longrightarrow> (\<exists>s. init True cfg = Inr s \<and> similarity_type s = similarity_type cfg
              \<and> session s = None)) \<and>
   (similarity_type self \<noteq> ''cosine'' \<and> similarity_type self \<noteq> ''inner'' \<and>
    2 \<le> card (intent ` set td)
      \<longrightarrow> (\<exists>e t. train rt self td = Raised e t \<and> session t = session self))"
proof (intro conjI impI)
  assume "(gpu_lstm cfg \<and> fused_lstm cfg) \<or> (transformer cfg \<and> fused_lstm cfg)
      \<or> (gpu_lstm cfg \<and> transformer cfg)"
  then show "init True cfg = Inl ValueError"
    by (auto simp: init_defs)
next
  assume "share_embedding cfg \<and> hidden_layers_sizes_a cfg \<noteq> hidden_layers_sizes_b cfg"
  then show "init True cfg = Inl ValueError"
    by (simp add: init_defs)
next
  assume "load_nn_architecture_params cfg = Inr cfg"
  then show "\<exists>s. init True cfg = Inr s \<and> similarity_type s = similarity_type cfg \<and> session s = None"
    by (simp add: init_def load_params_def load_embedding_params_def load_visual_params_def
        load_flag_if_tokenize_intents_def fresh_def config.defs classifier.defs Let_def)
next
  assume "similarity_type self \<noteq> ''cosine'' \<and> similarity_type self \<noteq> ''inner'' \<and>
    2 \<le> card (intent ` set td)"
  then show "\<exists>e t. train rt self td = Raised e t \<and> session t = session self"
    using train_unsupported_similarity by blast
qed

text \<open>
  The claim as the specification words it fails for the similarity type: construction
  with the unsupported type \<open>euclid\<close> succeeds.
\<close>

theorem fatal_configuration_errors_counterexample:
  "init True (cfg0\<lparr>similarity_type := ''euclid''\<rparr>) = Inr (fresh (cfg0\<lparr>similarity_type := ''euclid''\<rparr>))"
  by (simp add: init_defs cfg_simps)

theorem fatal_configuration_errors_witness:
  "init True (defaults\<lparr>gpu_lstm := True, transformer := True\<rparr>) = Inl ValueError \<and>
   init True (defaults\<lparr>share_embedding := True\<rparr>) = Inl ValueError \<and>
   init True (cfg0\<lparr>similarity_type := ''euclid''\<rparr>) = Inr (fresh (cfg0\<lparr>similarity_type := ''euclid''\<rparr>)) \<and>
   train rt0 (fresh (cfg0\<lparr>similarity_type := ''euclid''\<rparr>)) td0 =
     Raised ValueError
       (fresh (cfg0\<lparr>similarity_type := ''euclid''\<rparr>)
          \<lparr>num_neg := 1, inv_intent_dict := Some [(0, ''bye''), (1, ''greet'')],
           encoded_all_intents := Some [Sparse 2 [[0, 1]], Sparse 2 [[1, 0]]],
           graph := Some 1, iterator := Some 4, a_in := Some 5, b_in := Some 6,
           sequence_flag := Some True, word_embed := Some 7, intent_embed := Some 7\<rparr>)"
proof -
  note th1 = fatal_configuration_errors [of "defaults\<lparr>gpu_lstm := True, transformer := True\<rparr>"
      "fresh (cfg0\<lparr>similarity_type := ''euclid''\<rparr>)" td0 rt0]
  note th2 = fatal_configuration_errors [of "defaults\<lparr>share_embedding := True\<rparr>"
      "fresh (cfg0\<lparr>similarity_type := ''euclid''\<rparr>)" td0 rt0]
  have a: "init True (defaults\<lparr>gpu_lstm := True, transformer := True\<rparr>) = Inl ValueError"
    using th1 by (simp add: defaults_def)
  have b: "init True (defaults\<lparr>share_embedding := True\<rparr>) = Inl ValueError"
    using th2 by (simp add: defaults_def)
  have c: "init True (cfg0\<lparr>similarity_type := ''euclid''\<rparr>) = Inr (fresh (cfg0\<lparr>similarity_type := ''euclid''\<rparr>))"
    by (simp add: init_defs cfg_simps)
  have d: "train rt0 (fresh (cfg0\<lparr>similarity_type := ''euclid''\<rparr>)) td0 =
     Raised ValueError
       (fresh (cfg0\<lparr>similarity_type := ''euclid''\<rparr>)
          \<lparr>num_neg := 1, inv_intent_dict := Some [(0, ''bye''), (1, ''greet'')],
           encoded_all_intents := Some [Sparse 2 [[0, 1]], Sparse 2 [[1, 0]]],
           graph := Some 1, iterator := Some 4, a_in := Some 5, b_in := Some 6,
           sequence_flag := Some True, word_embed := Some 7, intent_embed := Some 7\<rparr>)"
    by (simp add: train_defs rt0_def td0_def cfg_simps)
  show ?thesis
    using a b c d by simp
qed

subsection \<open>Properties of the loss and the similarity\<close>

lemma reduce_max_Max:
  assumes "xs \<noteq> []"
  shows "reduce_max xs = Fin (Max (set xs))"
proof (cases xs)
  case Nil
  with assms show ?thesis by simp
next
  case (Cons a list)
  then show ?thesis
    using Max.set_eq_fold [of a list] by simp
qed

lemma tf_add_same: "length x = length y \<Longrightarrow> tf_add x y = Inr (map (\<lambda>(u, v). u + v) (zip x y))"
  by (simp add: tf_add_def)

lemma zip_map_same: "map (\<lambda>(u, v). u + v) (zip (map f xs) (map g xs)) = map (\<lambda>x. f x + g x) xs"
  by (induction xs) auto

lemma sum_list_zip_nth:
  "length xs = length ys \<Longrightarrow> sum_list (map (\<lambda>(x, y). f x y) (zip xs ys)) = (\<Sum>i<length xs. f (xs ! i) (ys ! i))"
  by (simp add: sum_list_sum_nth atLeast0LessThan)

lemma tf_loss_rows:
  assumes len: "length sim_emb = length sim"
    and rows: "\<forall>r\<in>set sim. r \<noteq> [] \<and> (use_max_sim_neg self \<longrightarrow> tl r \<noteq> [])"
    and embs: "\<forall>e\<in>set sim_emb. e \<noteq> []"
  shows "tf_loss self reg sim sim_emb =
     Inr (map_option (\<lambda>m. m + reg)
       (reduce_mean (map (\<lambda>(r, e). spec_row_loss self r e) (zip sim sim_emb))))"
proof -
  have c0: "column0 sim = Inr (map hd sim)"
    using rows by (simp add: column0_def list_all_iff)
  have neg: "(if use_max_sim_neg self
              then map (\<lambda>r. maximum0 (xadd (mu_neg self) (reduce_max (tl r)))) sim
              else map (\<lambda>r. sum_list (map (\<lambda>s. max 0 (mu_neg self + s)) (tl r))) sim)
           = map (\<lambda>r. if use_max_sim_neg self then max 0 (mu_neg self + Max (set (tl r)))
                       else (\<Sum>s\<leftarrow>tl r. max 0 (mu_neg self + s))) sim"
    using rows by (auto simp: reduce_max_Max)
  have emb: "map (\<lambda>r. maximum0 (reduce_max r)) sim_emb = map (\<lambda>e. max 0 (Max (set e))) sim_emb"
    using embs by (auto simp: reduce_max_Max)
  have rowhd: "map (\<lambda>r. max 0 (mu_pos self - hd r)) sim = map (\<lambda>r. max 0 (mu_pos self - r ! 0)) sim"
    using rows by (auto simp: hd_conv_nth)
  show ?thesis
    unfolding tf_loss_def c0 sum.case Let_def neg emb map_map comp_def rowhd
    apply (simp only: tf_add_same length_map zip_map_same sum.case len)
    apply (simp add: zip_map_map spec_row_loss_def mult.commute split_def comp_def)
    done
qed

text \<open>
  Claim C4: on a batch with at least one row, a true-intent column in \<open>sim\<close>, at least
  one negative where a maximum over the negatives is taken, and one row of \<open>sim_emb\<close>
  per row of \<open>sim\<close>, the tensor program \<^verbatim>\<open>_tf_loss\<close> computes the loss of the
  specification: per row the positive margin, the negative term selected by
  \<^verbatim>\<open>use_max_sim_neg\<close> and \<open>C_emb\<close> times the clipped maximum of \<open>sim_emb\<close>, averaged over
  the batch, plus the regularization loss.
\<close>

theorem tf_loss_formula:
  assumes "sim \<noteq> []" and "length sim_emb = length sim"
    and "\<forall>r\<in>set sim. r \<noteq> [] \<and> (use_max_sim_neg self \<longrightarrow> tl r \<noteq> [])"
    and "\<forall>e\<in>set sim_emb. e \<noteq> []"
  shows "tf_loss self reg sim sim_emb = Inr (Some (spec_loss self reg sim sim_emb))"
proof -
  have "sum_list (map (\<lambda>(r, e). spec_row_loss self r e) (zip sim sim_emb)) =
        (\<Sum>i<length sim. spec_row_loss self (sim ! i) (sim_emb ! i))"
    using assms(2) by (simp add: sum_list_zip_nth)
  moreover have "sim_emb \<noteq> []"
    using assms(1,2) by auto
  ultimately show ?thesis
    using assms by (simp add: tf_loss_rows reduce_mean_def spec_loss_def)
qed

theorem tf_loss_formula_witness:
  "tf_loss (fresh defaults) (1 / 100)
     [[9 / 10, 1 / 10, - (2 / 10)], [5 / 10, 3 / 10, 6 / 10]]
     [[2 / 10, - (1 / 10)], [5 / 10, 0]] = Inr (Some (27 / 50)) \<and>
   tf_loss (fresh (defaults\<lparr>use_max_sim_neg := False\<rparr>)) (1 / 100)
     [[9 / 10, 1 / 10, - (2 / 10)], [5 / 10, 3 / 10, 6 / 10]]
     [[2 / 10, - (1 / 10)], [5 / 10, 0]] = Inr (Some (27 / 50))"
proof -
  have two: "{..<2::nat} = {0, 1}"
    by auto
  show ?thesis
    using tf_loss_formula [of "[[9 / 10, 1 / 10, - (2 / 10)], [5 / 10, 3 / 10, 6 / 10]]"
        "[[2 / 10, - (1 / 10)], [5 / 10, 0]]" "fresh defaults" "1 / 100"]
      tf_loss_formula [of "[[9 / 10, 1 / 10, - (2 / 10)], [5 / 10, 3 / 10, 6 / 10]]"
        "[[2 / 10, - (1 / 10)], [5 / 10, 0]]" "fresh (defaults\<lparr>use_max_sim_neg := False\<rparr>)" "1 / 100"]
    by (simp add: spec_loss_def spec_row_loss_def two cfg_simps)
qed








subsection \<open>Properties of persistence\<close>

lemma map_of_filter_other:
  "map_of (filter (\<lambda>(p, c). p \<noteq> path) fs) q = (if q = path then None else map_of fs q)"
  by (induction fs) auto

lemma map_of_write_file:
  "map_of (write_file fs path c) q = (if q = path then Some c else map_of fs q)"
  by (simp add: write_file_def map_of_filter_other)

text \<open>
  Claim C8: without a session \<^verbatim>\<open>persist\<close> returns the reference \<^verbatim>\<open>None\<close> and
  writes nothing. With a session, when it returns, the reference names the checkpoint and
  the files differ from the old ones at five paths only: the checkpoint, the placeholder
  dimensions, the inverse intent dictionary, the encoded intents and the table of all
  intent embeddings, each with the value the instance holds. It does return when the
  directory can be made, the graph is set, the saver succeeds and both placeholders have
  a last dimension.
\<close>

theorem persist_artifacts:
  "(session self = None \<longrightarrow> persist rt makedirs self fs model_dir = Inr (None, fs)) \<and>
   (session self = Some sess \<and> persist rt makedirs self fs model_dir = Inr (ref, fs1) \<longrightarrow>
      ref = Some (component_name @ ''.ckpt'') \<and>
      (\<exists>a b da db.
         a_in self = Some a \<and> rt_last_dim rt a = Inr da \<and>
         b_in self = Some b \<and> rt_last_dim rt b = Inr db \<and>
         (\<forall>q. map_of fs1 q =
            (if q = path_join model_dir (component_name @ ''_all_intents_embed_values.pkl'')
             then Some (AllIntentsEmbedValues (all_intents_embed_values self))
             else if q = path_join model_dir (component_name @ ''_encoded_all_intents.pkl'')
             then Some (EncodedAllIntents (encoded_all_intents self))
             else if q = path_join model_dir (component_name @ ''_inv_intent_dict.pkl'')
             then Some (InvIntentDict (inv_intent_dict self))
             else if q = path_join model_dir (component_name @ ''_placeholder_dims.pkl'')
             then Some (PlaceholderDims da db)
             else if q = path_join model_dir (component_name @ ''.ckpt'')
             then Some (Checkpoint sess)
             else map_of fs q)))) \<and>
   (session self = Some sess \<and>
    makedirs (dirname (path_join model_dir (component_name @ ''.ckpt''))) = None \<and>
    graph self = Some g \<and>
    rt_saver_save rt sess (path_join model_dir (component_name @ ''.ckpt'')) = None \<and>
    a_in self = Some a0 \<and> rt_last_dim rt a0 = Inr d0 \<and>
    b_in self = Some b0 \<and> rt_last_dim rt b0 = Inr d1 \<longrightarrow>
      (\<exists>fs2. persist rt makedirs self fs model_dir = Inr (Some (component_name @ ''.ckpt''), fs2)))"
proof (intro conjI impI)
  assume "session self = None"
  then show "persist rt makedirs self fs model_dir = Inr (None, fs)"
    by (simp add: persist_def)
next
  assume h: "session self = Some sess \<and> persist rt makedirs self fs model_dir = Inr (ref, fs1)"
  then show "ref = Some (component_name @ ''.ckpt'')"
    by (auto simp: persist_def Let_def split: option.splits sum.splits)
  from h show "\<exists>a b da db.
         a_in self = Some a \<and> rt_last_dim rt a = Inr da \<and>
         b_in self = Some b \<and> rt_last_dim rt b = Inr db \<and>
         (\<forall>q. map_of fs1 q =
            (if q = path_join model_dir (component_name @ ''_all_intents_embed_values.pkl'')
             then Some (AllIntentsEmbedValues (all_intents_embed_values self))
             else if q = path_join model_dir (component_name @ ''_encoded_all_intents.pkl'')
             then Some (EncodedAllIntents (encoded_all_intents self))
             else if q = path_join model_dir (component_name @ ''_inv_intent_dict.pkl'')
             then Some (InvIntentDict (inv_intent_dict self))
             else if q = path_join model_dir (component_name @ ''_placeholder_dims.pkl'')
             then Some (PlaceholderDims da db)
             else if q = path_join model_dir (component_name @ ''.ckpt'')
             then Some (Checkpoint sess)
             else map_of fs q))"
    by (auto simp: persist_def Let_def map_of_write_file split: option.splits sum.splits)
next
  assume "session self = Some sess \<and>
    makedirs (dirname (path_join model_dir (component_name @ ''.ckpt''))) = None \<and>
    graph self = Some g \<and>
    rt_saver_save rt sess (path_join model_dir (component_name @ ''.ckpt'')) = None \<and>
    a_in self = Some a0 \<and> rt_last_dim rt a0 = Inr d0 \<and>
    b_in self = Some b0 \<and> rt_last_dim rt b0 = Inr d1"
  then show "\<exists>fs2. persist rt makedirs self fs model_dir = Inr (Some (component_name @ ''.ckpt''), fs2)"
    by (simp add: persist_def Let_def)
qed

subsection \<open>Properties of prediction\<close>
















subsection \<open>Properties of negative sampling\<close>

lemma random_choice_subset:
  assumes "random_choice pool n draw = Inr xs"
  shows "set xs \<subseteq> set pool"
proof (cases "pool = []")
  case True
  then show ?thesis
    using assms by (auto simp: random_choice_def split: if_splits)
next
  case False
  then have "draw k mod length pool < length pool" for k
    by simp
  then show ?thesis
    using assms by (auto simp: random_choice_def split: if_splits)
qed

lemma filter_err_subset:
  "filter_err f xs = Inr ys \<Longrightarrow> set ys \<subseteq> {x \<in> set xs. f x = Inr True}"
proof (induction xs arbitrary: ys)
  case Nil
  then show ?case by simp
next
  case (Cons x xs)
  then show ?case
    by (auto split: sum.splits if_splits)
qed

lemma create_batch_b_negs_exclude_own:
  assumes "\<not> use_iou self" and "create_batch_b_negs self n intent_ids draw b = Inr negs"
  shows "\<forall>i\<in>set negs. i < n \<and> i \<noteq> intent_ids ! b"
proof -
  let ?f = "\<lambda>i. case py_index intent_ids b of
                   Inl e \<Rightarrow> Inl e
                 | Inr own \<Rightarrow> Inr (i \<noteq> own)"
  from assms obtain pool where
    pool: "filter_err ?f [0..<n] = Inr pool"
    and ch: "random_choice pool (num_neg self) (draw b) = Inr negs"
    by (auto simp: create_batch_b_negs_def table_negative_indexes_def split: sum.splits)
  have "i < n \<and> i \<noteq> intent_ids ! b" if "i \<in> set pool" for i
  proof -
    from filter_err_subset [OF pool] that have "i < n" and "?f i = Inr True"
      by auto
    then show ?thesis
      by (auto simp: py_index_def split: sum.splits if_splits)
  qed
  then show ?thesis
    using random_choice_subset [OF ch] by blast
qed

lemma negs_from_batch_ids_exclude_equal:
  assumes "\<not> use_iou self" and "negs_from_batch_ids self batch_pos_b intent_ids draw b = Inr negs"
  shows "\<forall>i\<in>set negs. i < length batch_pos_b \<and> batch_pos_b ! i \<noteq> batch_pos_b ! b"
proof -
  from assms have
    ch: "random_choice (filter (\<lambda>i. batch_pos_b ! i \<noteq> batch_pos_b ! b) [0..<length batch_pos_b])
           (num_neg self) (draw b) = Inr negs"
    by (auto simp: negs_from_batch_ids_def batch_negative_indexes_def split: sum.splits)
  show ?thesis
    using random_choice_subset [OF ch] by auto
qed

lemma eye_nth: "b < B \<Longrightarrow> j < B \<Longrightarrow> eye B ! b ! j = (if b = j then 1 else 0)"
  by (simp add: eye_def)

lemma length_eye_row: "b < B \<Longrightarrow> length (eye B ! b) = B"
  by (simp add: eye_def)

lemma support_set:
  assumes "b < B"
  shows "set (filter (\<lambda>j. 0 < map (\<lambda>v. 1 - v) (eye B ! b) ! j) [0..<B]) = {j. j < B \<and> j \<noteq> b}"
proof -
  have "(0 < map (\<lambda>v. 1 - v) (eye B ! b) ! j) = (j \<noteq> b)" if "j < B" for j
    using that assms by (simp add: length_eye_row eye_nth)
  then show ?thesis
    by auto
qed

lemma categorical_row_in_support:
  assumes "filter (\<lambda>j. 0 < w ! j) [0..<length w] \<noteq> []"
  shows "set (categorical_row w n draw) \<subseteq> set (filter (\<lambda>j. 0 < w ! j) [0..<length w])"
proof -
  define support where "support = filter (\<lambda>j. 0 < w ! j) [0..<length w]"
  have ne: "support \<noteq> []"
    using assms by (simp add: support_def)
  have cr: "categorical_row w n draw = map (\<lambda>k. support ! (draw k mod length support)) [0..<n]"
    unfolding categorical_row_def support_def [symmetric] Let_def using ne by simp
  have "support ! (draw k mod length support) \<in> set support" for k
    using ne by simp
  then show ?thesis
    unfolding cr support_def [symmetric] by auto
qed

lemma graph_negs_ids_exclude_position:
  assumes "1 < B" and "b < B"
  shows "\<forall>j\<in>set (graph_negs_ids B draw ! b). j < B \<and> j \<noteq> b"
proof -
  let ?w = "map (\<lambda>v. 1 - v) (eye B ! b)"
  have lw: "length ?w = B"
    using assms by (simp add: length_eye_row)
  have sup: "set (filter (\<lambda>j. 0 < ?w ! j) [0..<length ?w]) = {j. j < B \<and> j \<noteq> b}"
    unfolding lw by (rule support_set [OF assms(2)])
  have "(if b = 0 then 1 else 0) \<in> {j. j < B \<and> j \<noteq> b}"
    using assms by simp
  then have ne: "filter (\<lambda>j. 0 < ?w ! j) [0..<length ?w] \<noteq> []"
    unfolding sup [symmetric] by (metis empty_iff empty_set)
  have g: "graph_negs_ids B draw ! b = categorical_row ?w 3 (draw b)"
    using assms by (simp add: graph_negs_ids_def)
  show ?thesis
    unfolding g using categorical_row_in_support [OF ne, of 3 "draw b"] sup by blast
qed

text \<open>
  Claim C2 holds for the two NumPy samplers (the lemmas above), not for the sampler that
  \<^verbatim>\<open>train\<close> uses: it excludes the position of the anchor in the batch, not the rows
  equal to the anchor's positive. In a batch whose rows 0 and 1 carry the same intent
  \<open>[1, 0]\<close>, the draws of row 0 fall on position 1, and all three negatives of row 0 are
  its own positive intent.
\<close>

theorem graph_sampler_picks_the_positive:
  "graph_negs_ids 3 (\<lambda>b k. 0) = [[1, 1, 1], [0, 0, 0], [0, 0, 0]] \<and>
   tf_sample_neg [[1, 0], [1, 0], [0, 1]] True (graph_negs_ids 3 (\<lambda>b k. 0)) =
     [[[1, 0], [1, 0], [1, 0], [1, 0]],
      [[1, 0], [1, 0], [1, 0], [1, 0]],
      [[0, 1], [1, 0], [1, 0], [1, 0]]]"
proof -
  have three: "[0..<3] = [0, 1, 2]"
    by code_simp
  have g: "graph_negs_ids 3 (\<lambda>b k. 0) = [[1, 1, 1], [0, 0, 0], [0, 0, 0]]"
    by (simp add: graph_negs_ids_def categorical_row_def eye_def three)
  show ?thesis
    unfolding g by (simp add: tf_sample_neg_def)
qed

subsection \<open>The properties at concrete inputs\<close>



theorem persist_artifacts_witness:
  "persist rt0 (\<lambda>d. None) (fresh cfg0) [] ''models'' = Inr (None, []) \<and>
   persist rt0 (\<lambda>d. None) (loaded cfg0) [] ''models'' =
     Inr (Some ''intent_classifier_tensorflow_embedding.ckpt'',
       [(''models/intent_classifier_tensorflow_embedding_all_intents_embed_values.pkl'',
         AllIntentsEmbedValues (Some [[[0, 1], [1, 0]]])),
        (''models/intent_classifier_tensorflow_embedding_encoded_all_intents.pkl'',
         EncodedAllIntents (Some [Sparse 2 [[0, 1]], Sparse 2 [[1, 0]]])),
        (''models/intent_classifier_tensorflow_embedding_inv_intent_dict.pkl'',
         InvIntentDict (Some [(0, ''bye''), (1, ''greet'')])),
        (''models/intent_classifier_tensorflow_embedding_placeholder_dims.pkl'',
         PlaceholderDims 2 2),
        (''models/intent_classifier_tensorflow_embedding.ckpt'', Checkpoint 12)])"
proof -
  have n: "session (fresh cfg0) = None"
    by (simp add: cfg_simps)
  have a: "persist rt0 (\<lambda>d. None) (fresh cfg0) [] ''models'' = Inr (None, [])"
    using persist_artifacts [of "fresh cfg0" rt0 "\<lambda>d. None" "[]" "''models''"] n by blast
  have b: "persist rt0 (\<lambda>d. None) (loaded cfg0) [] ''models'' =
     Inr (Some ''intent_classifier_tensorflow_embedding.ckpt'',
       [(''models/intent_classifier_tensorflow_embedding_all_intents_embed_values.pkl'',
         AllIntentsEmbedValues (Some [[[0, 1], [1, 0]]])),
        (''models/intent_classifier_tensorflow_embedding_encoded_all_intents.pkl'',
         EncodedAllIntents (Some [Sparse 2 [[0, 1]], Sparse 2 [[1, 0]]])),
        (''models/intent_classifier_tensorflow_embedding_inv_intent_dict.pkl'',
         InvIntentDict (Some [(0, ''bye''), (1, ''greet'')])),
        (''models/intent_classifier_tensorflow_embedding_placeholder_dims.pkl'',
         PlaceholderDims 2 2),
        (''models/intent_classifier_tensorflow_embedding.ckpt'', Checkpoint 12)])"
    by (simp add: persist_def path_join_def dirname_def component_name_def write_file_def
        loaded_def cfg_simps rt0_def)
  show ?thesis
    using a b by simp
qed

end
